theory Spec2Isabelle
  imports Main
begin

section \<open>Python values and exceptions\<close>

text \<open>
  The module \<open>src/mcp/client/stdio/win32.py\<close> has three parts: the resolver
  \<open>get_windows_executable_command\<close>, the class \<open>FallbackProcess\<close> and the launcher
  \<open>create_windows_process\<close>. None of them raises by itself; every exception comes out of
  a call into the Python library (\<open>shutil.which\<close>, \<open>subprocess.Popen\<close>, the methods of
  the Popen object, of its file objects and of the anyio streams). A call that may raise
  returns \<open>py_exception + 'a\<close>, with \<open>Inl\<close> for the exception.

  Only the part of Python's exception hierarchy that the two handlers of the module
  (\<open>except OSError\<close> and \<open>except Exception\<close>) tell apart is modelled:
  \<open>PermissionError\<close> and \<open>FileNotFoundError\<close> are subclasses of \<open>OSError\<close>, every
  class but \<open>KeyboardInterrupt\<close> and \<open>SystemExit\<close> derives from \<open>Exception\<close>.
\<close>

datatype py_exception =
  OSError | PermissionError | FileNotFoundError
  | ValueError | NotImplementedError
  | KeyboardInterrupt | SystemExit

fun isinstance_OSError :: "py_exception \<Rightarrow> bool" where
  "isinstance_OSError OSError = True"
| "isinstance_OSError PermissionError = True"
| "isinstance_OSError FileNotFoundError = True"
| "isinstance_OSError _ = False"

fun isinstance_Exception :: "py_exception \<Rightarrow> bool" where
  "isinstance_Exception KeyboardInterrupt = False"
| "isinstance_Exception SystemExit = False"
| "isinstance_Exception _ = True"

text \<open>What a method hands back to its caller: \<open>None\<close>, or the exit status of the child.\<close>

datatype py_value = PyNone | PyInt int

fun truthy :: "py_value \<Rightarrow> bool" where
  "truthy PyNone = False"
| "truthy (PyInt n) = (n \<noteq> 0)"

section \<open>The executable resolver\<close>

text \<open>
  \<open>shutil.which\<close> is the environment of the resolver: given a name it returns a path,
  returns \<open>None\<close>, or raises. The resolver is modelled over any such function.
  The walrus tests \<open>if command_path := shutil.which(command)\<close> are truth tests of the
  returned value: \<open>None\<close> and the empty string are both false.
\<close>

type_synonym which_fn = "string \<Rightarrow> py_exception + string option"

fun truthy_path :: "string option \<Rightarrow> bool" where
  "truthy_path None = False"
| "truthy_path (Some p) = (p \<noteq> [])"

definition windows_extensions :: "string list" where
  "windows_extensions = [''.cmd'', ''.bat'', ''.exe'', ''.ps1'']"

text \<open>The \<open>for ext in [...]\<close> loop, followed by the \<open>return command\<close> after it.\<close>

fun try_extensions :: "which_fn \<Rightarrow> string \<Rightarrow> string list \<Rightarrow> py_exception + string" where
  "try_extensions which command [] = Inr command"
| "try_extensions which command (ext # exts) =
     (case which (command @ ext) of
        Inl e \<Rightarrow> Inl e
      | Inr ext_path \<Rightarrow>
          if truthy_path ext_path then Inr (the ext_path)
          else try_extensions which command exts)"

text \<open>The body of the \<open>try\<close> block.\<close>

definition resolve_try_block :: "which_fn \<Rightarrow> string \<Rightarrow> py_exception + string" where
  "resolve_try_block which command =
     (case which command of
        Inl e \<Rightarrow> Inl e
      | Inr command_path \<Rightarrow>
          if truthy_path command_path then Inr (the command_path)
          else try_extensions which command windows_extensions)"

text \<open>The whole function: the \<open>try\<close> block under its one handler, \<open>except OSError\<close>.\<close>

definition get_windows_executable_command :: "which_fn \<Rightarrow> string \<Rightarrow> py_exception + string" where
  "get_windows_executable_command which command =
     (case resolve_try_block which command of
        Inl e \<Rightarrow> if isinstance_OSError e then Inr command else Inl e
      | Inr path \<Rightarrow> Inr path)"

section \<open>The process handle adapter\<close>

subsection \<open>Objects\<close>

text \<open>
  A raw file object (\<open>popen.stdin\<close>, \<open>popen.stdout\<close>, \<open>popen.stderr\<close>) is known by its
  identity; \<open>None\<close> is an absent endpoint. A file object defines neither \<open>__bool__\<close> nor
  \<open>__len__\<close>, and neither do the anyio streams, so the tests \<open>if self.stdin_raw\<close> and
  \<open>if self.stdin\<close> ask whether the attribute is \<open>None\<close>. A stream keeps a reference to
  the file object that it was built over.
\<close>

type_synonym handle = nat

record popen_obj =
  pid :: nat
  p_stdin :: "handle option"
  p_stdout :: "handle option"
  p_stderr :: "handle option"

datatype stream = FileWriteStream handle | FileReadStream handle

fun file_of :: "stream \<Rightarrow> handle" where
  "file_of (FileWriteStream h) = h"
| "file_of (FileReadStream h) = h"

record FallbackProcess =
  popen :: popen_obj
  stdin_raw :: "handle option"
  stdout_raw :: "handle option"
  stderr :: "handle option"
  stdin :: "stream option"
  stdout :: "stream option"

text \<open>\<open>FallbackProcess.__init__\<close>.\<close>

definition FallbackProcess_init :: "popen_obj \<Rightarrow> FallbackProcess" where
  "FallbackProcess_init popen_obj =
     \<lparr> popen = popen_obj,
       stdin_raw = p_stdin popen_obj,
       stdout_raw = p_stdout popen_obj,
       stderr = p_stderr popen_obj,
       stdin = (case p_stdin popen_obj of Some h \<Rightarrow> Some (FileWriteStream h) | None \<Rightarrow> None),
       stdout = (case p_stdout popen_obj of Some h \<Rightarrow> Some (FileReadStream h) | None \<Rightarrow> None) \<rparr>"

subsection \<open>The library calls that the adapter makes\<close>

text \<open>
  The methods of \<open>FallbackProcess\<close> act only through calls on the Popen object, on its
  file objects and on the two streams. The state they act on is the \<open>world\<close>:
  \<^item> \<open>returncode\<close> is the attribute of that name of each Popen object (by \<open>pid\<close>), set
    once the child has been waited for; \<open>exit_status\<close> is the status the operating
    system reports for the child; \<open>signalled\<close> holds the children that a termination
    request has reached;
  \<^item> \<open>closed\<close> holds the file objects that are closed, and \<open>os_closes\<close> lists, in order,
    the handles released to the operating system;
  \<^item> \<open>trace\<close> lists, in order, the calls made, each with the object it was made on;
  \<^item> \<open>terminate_error\<close>, \<open>wait_error\<close> and \<open>close_error\<close> are the failures of the
    environment: the exception, if any, that terminating a live child, waiting for a
    child, or releasing a handle meets.

  The calls follow the documented behaviour of CPython and anyio: \<open>Popen.terminate\<close>
  does nothing once \<open>returncode\<close> is set; \<open>Popen.wait\<close> sets \<open>returncode\<close> and returns
  it; closing a file object that is closed has no effect, and a file object whose release
  fails is closed all the same; the \<open>aclose\<close> of a stream closes its file object. The
  worker thread of \<open>to_thread.run_sync\<close> is not modelled: awaiting it yields the result of
  the call it runs.
\<close>

datatype event =
  PopenTerminate popen_obj
  | PopenWaitInThread popen_obj
  | StreamAclose stream
  | FileClose handle

record world =
  returncode :: "nat \<Rightarrow> int option"
  exit_status :: "nat \<Rightarrow> int"
  signalled :: "nat set"
  closed :: "handle set"
  os_closes :: "handle list"
  trace :: "event list"
  terminate_error :: "nat \<Rightarrow> py_exception option"
  wait_error :: "nat \<Rightarrow> py_exception option"
  close_error :: "handle \<Rightarrow> py_exception option"

type_synonym 'a call = "world \<Rightarrow> (py_exception + 'a) \<times> world"

definition record_call :: "event \<Rightarrow> world \<Rightarrow> world" where
  "record_call ev w = w\<lparr>trace := trace w @ [ev]\<rparr>"

definition popen_terminate :: "popen_obj \<Rightarrow> py_value call" where
  "popen_terminate p w0 =
     (let w = record_call (PopenTerminate p) w0 in
      case returncode w (pid p) of
        Some rc \<Rightarrow> (Inr PyNone, w)
      | None \<Rightarrow>
          (case terminate_error w (pid p) of
             Some e \<Rightarrow> (Inl e, w)
           | None \<Rightarrow> (Inr PyNone, w\<lparr>signalled := insert (pid p) (signalled w)\<rparr>)))"

definition popen_wait_in_thread :: "popen_obj \<Rightarrow> py_value call" where
  "popen_wait_in_thread p w0 =
     (let w = record_call (PopenWaitInThread p) w0 in
      case wait_error w (pid p) of
        Some e \<Rightarrow> (Inl e, w)
      | None \<Rightarrow>
          (case returncode w (pid p) of
             Some rc \<Rightarrow> (Inr (PyInt rc), w)
           | None \<Rightarrow>
               (Inr (PyInt (exit_status w (pid p))),
                w\<lparr>returncode := (returncode w)(pid p := Some (exit_status w (pid p)))\<rparr>)))"

definition io_close :: "handle \<Rightarrow> py_value call" where
  "io_close h w =
     (if h \<in> closed w then (Inr PyNone, w)
      else
        (let w' = w\<lparr>closed := insert h (closed w), os_closes := os_closes w @ [h]\<rparr> in
         case close_error w h of
           Some e \<Rightarrow> (Inl e, w')
         | None \<Rightarrow> (Inr PyNone, w')))"

definition file_close :: "handle \<Rightarrow> py_value call" where
  "file_close h w = io_close h (record_call (FileClose h) w)"

definition stream_aclose :: "stream \<Rightarrow> py_value call" where
  "stream_aclose s w = io_close (file_of s) (record_call (StreamAclose s) w)"

subsection \<open>The methods\<close>

text \<open>
  One statement after another: when the first raises, the exception leaves the method and
  the second does not run. The module has no handler around any statement of the class.
\<close>

definition and_then :: "(py_exception + 'a) \<times> world \<Rightarrow> 'b call \<Rightarrow> (py_exception + 'b) \<times> world" where
  "and_then r k = (case r of (Inl e, w) \<Rightarrow> (Inl e, w) | (Inr x, w) \<Rightarrow> k w)"

text \<open>\<open>if obj: obj.method()\<close> for an attribute that may be \<open>None\<close>.\<close>

definition if_present :: "'a option \<Rightarrow> ('a \<Rightarrow> py_value call) \<Rightarrow> py_value call" where
  "if_present obj method w = (case obj of Some x \<Rightarrow> method x w | None \<Rightarrow> (Inr PyNone, w))"

definition aenter :: "FallbackProcess \<Rightarrow> FallbackProcess call" where
  "aenter self w = (Inr self, w)"

text \<open>
  \<open>FallbackProcess.__aexit__\<close>. The three arguments are the exception information that
  the \<open>async with\<close> statement passes: all \<open>None\<close> on a normal exit.
\<close>

definition aexit ::
  "FallbackProcess \<Rightarrow> py_exception option \<Rightarrow> py_exception option \<Rightarrow> nat option \<Rightarrow> py_value call" where
  "aexit self exc_type exc_val exc_tb w =
     and_then (popen_terminate (popen self) w) (\<lambda>w.
     and_then (popen_wait_in_thread (popen self) w) (\<lambda>w.
     and_then (if_present (stdin self) stream_aclose w) (\<lambda>w.
     and_then (if_present (stdout self) stream_aclose w) (\<lambda>w.
     and_then (if_present (stdin_raw self) file_close w) (\<lambda>w.
     and_then (if_present (stdout_raw self) file_close w) (\<lambda>w.
     and_then (if_present (stderr self) file_close w) (\<lambda>w.
     (Inr PyNone, w))))))))"

text \<open>\<open>FallbackProcess.wait\<close>, \<open>FallbackProcess.terminate\<close> and \<open>FallbackProcess.kill\<close>.\<close>

definition wait :: "FallbackProcess \<Rightarrow> py_value call" where
  "wait self w = popen_wait_in_thread (popen self) w"

definition terminate :: "FallbackProcess \<Rightarrow> py_value call" where
  "terminate self w = popen_terminate (popen self) w"

definition kill :: "FallbackProcess \<Rightarrow> py_value call" where
  "kill self w = and_then (terminate self w) (\<lambda>w. (Inr PyNone, w))"

text \<open>
  The \<open>async with\<close> statement over an adapter, as the language defines it: the body runs
  after \<open>__aenter__\<close>; when it raises, \<open>__aexit__\<close> gets the exception and the exception
  is raised again unless \<open>__aexit__\<close> returned a true value; an exception of
  \<open>__aexit__\<close> itself replaces it.
\<close>

definition async_with :: "FallbackProcess \<Rightarrow> (FallbackProcess \<Rightarrow> py_value call) \<Rightarrow> py_value call" where
  "async_with mgr body w0 =
     (case aenter mgr w0 of
        (Inl e, w) \<Rightarrow> (Inl e, w)
      | (Inr x, w) \<Rightarrow>
          (case body x w of
             (Inr r, w1) \<Rightarrow> and_then (aexit mgr None None None w1) (\<lambda>w2. (Inr r, w2))
           | (Inl e, w1) \<Rightarrow>
               (case aexit mgr (Some e) (Some e) (Some 0) w1 of
                  (Inl e', w2) \<Rightarrow> (Inl e', w2)
                | (Inr suppress, w2) \<Rightarrow>
                    if truthy suppress then (Inr PyNone, w2) else (Inl e, w2))))"

section \<open>The launcher\<close>

text \<open>
  The keyword arguments of one \<open>subprocess.Popen\<close> call. \<open>arg_creationflags\<close> is \<open>None\<close>
  when the call does not pass the keyword.
\<close>

datatype stdio_arg = PIPE | Given "handle option"

record popen_args =
  argv :: "string list"
  arg_stdin :: stdio_arg
  arg_stdout :: stdio_arg
  arg_stderr :: stdio_arg
  arg_env :: "(string \<rightharpoonup> string) option"
  arg_cwd :: "string option"
  arg_bufsize :: int
  arg_creationflags :: "int option"

text \<open>
  The operating system decides what a spawn attempt yields: \<open>os_spawn a n\<close> is the outcome
  of the call with arguments \<open>a\<close> made after \<open>n\<close> earlier calls. The state of the
  launcher is the list of the calls made so far.
\<close>

type_synonym spawn_fn = "popen_args \<Rightarrow> nat \<Rightarrow> py_exception + popen_obj"

definition Popen ::
  "spawn_fn \<Rightarrow> popen_args \<Rightarrow> popen_args list \<Rightarrow> (py_exception + popen_obj) \<times> popen_args list" where
  "Popen os_spawn a calls = (os_spawn a (length calls), calls @ [a])"

text \<open>
  \<open>getattr(subprocess, "CREATE_NO_WINDOW", 0)\<close>: the attribute exists on Windows only;
  \<open>create_no_window\<close> is its value where it exists.
\<close>

definition getattr_CREATE_NO_WINDOW :: "int option \<Rightarrow> int" where
  "getattr_CREATE_NO_WINDOW create_no_window =
     (case create_no_window of Some flag \<Rightarrow> flag | None \<Rightarrow> 0)"

definition first_attempt ::
  "int option \<Rightarrow> string \<Rightarrow> string list \<Rightarrow> (string \<rightharpoonup> string) option \<Rightarrow> handle option
    \<Rightarrow> string option \<Rightarrow> popen_args" where
  "first_attempt create_no_window command args env errlog cwd =
     \<lparr> argv = command # args, arg_stdin = PIPE, arg_stdout = PIPE, arg_stderr = Given errlog,
       arg_env = env, arg_cwd = cwd, arg_bufsize = 0,
       arg_creationflags = Some (getattr_CREATE_NO_WINDOW create_no_window) \<rparr>"

definition second_attempt ::
  "string \<Rightarrow> string list \<Rightarrow> (string \<rightharpoonup> string) option \<Rightarrow> handle option
    \<Rightarrow> string option \<Rightarrow> popen_args" where
  "second_attempt command args env errlog cwd =
     \<lparr> argv = command # args, arg_stdin = PIPE, arg_stdout = PIPE, arg_stderr = Given errlog,
       arg_env = env, arg_cwd = cwd, arg_bufsize = 0,
       arg_creationflags = None \<rparr>"

text \<open>
  \<open>create_windows_process\<close>: the \<open>try\<close> block and its one handler, \<open>except Exception\<close>.
  Nothing is around the call in the handler.
\<close>

definition create_windows_process ::
  "spawn_fn \<Rightarrow> int option \<Rightarrow> string \<Rightarrow> string list \<Rightarrow> (string \<rightharpoonup> string) option
    \<Rightarrow> handle option \<Rightarrow> string option \<Rightarrow> popen_args list
    \<Rightarrow> (py_exception + FallbackProcess) \<times> popen_args list" where
  "create_windows_process os_spawn create_no_window command args env errlog cwd calls =
     (case Popen os_spawn (first_attempt create_no_window command args env errlog cwd) calls of
        (Inr popen_obj, calls1) \<Rightarrow> (Inr (FallbackProcess_init popen_obj), calls1)
      | (Inl e, calls1) \<Rightarrow>
          if isinstance_Exception e then
            (case Popen os_spawn (second_attempt command args env errlog cwd) calls1 of
               (Inr popen_obj, calls2) \<Rightarrow> (Inr (FallbackProcess_init popen_obj), calls2)
             | (Inl e2, calls2) \<Rightarrow> (Inl e2, calls2))
          else (Inl e, calls1))"

section \<open>The specification's reading of the module\<close>

subsection \<open>The resolver\<close>

text \<open>
  A lookup resolves when it returns a path, and misses when it returns without one.
  A lookup that raises does neither.
\<close>

definition resolves :: "py_exception + string option \<Rightarrow> bool" where
  "resolves r = (case r of Inr found \<Rightarrow> truthy_path found | Inl e \<Rightarrow> False)"

definition misses :: "py_exception + string option \<Rightarrow> bool" where
  "misses r = (case r of Inr found \<Rightarrow> \<not> truthy_path found | Inl e \<Rightarrow> False)"

definition path_of :: "py_exception + string option \<Rightarrow> string" where
  "path_of r = (case r of Inr (Some p) \<Rightarrow> p | _ \<Rightarrow> [])"




subsection \<open>The teardown\<close>

text \<open>
  The steps of the scoped exit in the order of section 4.2: terminate, await the exit,
  close the write stream, the read stream, the raw write handle, the raw read handle and
  the raw error handle, each of the five only if the adapter has it.
\<close>

definition present :: "'a option \<Rightarrow> ('a \<Rightarrow> event) \<Rightarrow> event list" where
  "present obj ev = (case obj of Some x \<Rightarrow> [ev x] | None \<Rightarrow> [])"

definition teardown_plan :: "FallbackProcess \<Rightarrow> event list" where
  "teardown_plan self =
     [PopenTerminate (popen self), PopenWaitInThread (popen self)]
     @ present (stdin self) StreamAclose
     @ present (stdout self) StreamAclose
     @ present (stdin_raw self) FileClose
     @ present (stdout_raw self) FileClose
     @ present (stderr self) FileClose"

text \<open>The five closing steps are the plan without its first two steps.\<close>

definition closing_steps :: "FallbackProcess \<Rightarrow> event list" where
  "closing_steps self = drop 2 (teardown_plan self)"

fun perform :: "event \<Rightarrow> py_value call" where
  "perform (PopenTerminate p) = popen_terminate p"
| "perform (PopenWaitInThread p) = popen_wait_in_thread p"
| "perform (StreamAclose s) = stream_aclose s"
| "perform (FileClose h) = file_close h"

text \<open>Running a list of steps, stopping at the first that raises.\<close>

fun run_fail_fast :: "event list \<Rightarrow> py_value call" where
  "run_fail_fast [] w = (Inr PyNone, w)"
| "run_fail_fast (ev # evs) w =
     (case perform ev w of
        (Inl e, w') \<Rightarrow> (Inl e, w')
      | (Inr r, w') \<Rightarrow> run_fail_fast evs w')"

text \<open>The file object that a step closes, if it closes one.\<close>

fun closes :: "event \<Rightarrow> handle option" where
  "closes (StreamAclose s) = Some (file_of s)"
| "closes (FileClose h) = Some h"
| "closes _ = None"

definition handles_of :: "event list \<Rightarrow> handle set" where
  "handles_of evs = set (List.map_filter closes evs)"

text \<open>
  A step is quiet in a world where it changes nothing but the trace: the child has been
  waited for, or the file object is closed. A step is calm in a world whose environment
  holds no failure for it.
\<close>

fun quiet :: "event \<Rightarrow> world \<Rightarrow> bool" where
  "quiet (PopenTerminate p) w = (returncode w (pid p) \<noteq> None)"
| "quiet (PopenWaitInThread p) w = (returncode w (pid p) \<noteq> None \<and> wait_error w (pid p) = None)"
| "quiet (StreamAclose s) w = (file_of s \<in> closed w)"
| "quiet (FileClose h) w = (h \<in> closed w)"

fun calm :: "event \<Rightarrow> world \<Rightarrow> bool" where
  "calm (PopenTerminate p) w = (terminate_error w (pid p) = None)"
| "calm (PopenWaitInThread p) w = (wait_error w (pid p) = None)"
| "calm (StreamAclose s) w = (close_error w (file_of s) = None)"
| "calm (FileClose h) w = (close_error w h = None)"

section \<open>Concrete environments\<close>

text \<open>Lookups: nothing on the search path; a lookup that raises \<open>ValueError\<close>; a search
  path where the bare name \<open>npx\<close> cannot be read and \<open>npx.cmd\<close> exists; one where
  \<open>npx.cmd\<close> cannot be read and \<open>npx.exe\<close> exists; one that holds only
  \<open>npx.cmd\<close>.\<close>

definition which_nothing :: which_fn where
  "which_nothing c = Inr None"

definition which_value_error :: which_fn where
  "which_value_error c = Inl ValueError"

definition which_denied :: which_fn where
  "which_denied c =
     (if c = ''npx'' then Inl PermissionError
      else if c = ''npx.cmd'' then Inr (Some ''C:/nodejs/npx.cmd'')
      else Inr None)"


definition which_npx :: which_fn where
  "which_npx c = (if c = ''npx.cmd'' then Inr (Some ''C:/nodejs/npx.cmd'') else Inr None)"

text \<open>Children: one with all three endpoints, one as the launcher spawns it (no error
  pipe), one whose standard input was redirected elsewhere.\<close>

definition popen_full :: popen_obj where
  "popen_full = \<lparr> pid = 4242, p_stdin = Some 10, p_stdout = Some 11, p_stderr = Some 12 \<rparr>"

definition popen_piped :: popen_obj where
  "popen_piped = \<lparr> pid = 4243, p_stdin = Some 20, p_stdout = Some 21, p_stderr = None \<rparr>"

definition popen_no_stdin :: popen_obj where
  "popen_no_stdin = \<lparr> pid = 4244, p_stdin = None, p_stdout = Some 31, p_stderr = Some 32 \<rparr>"

definition adapter_full :: FallbackProcess where
  "adapter_full = FallbackProcess_init popen_full"

text \<open>Worlds: a running child with every handle open and no failure in store; the same
  with a failure in store for the release of handle 10, the child's standard input.\<close>

definition world_initial :: world where
  "world_initial =
     \<lparr> returncode = (\<lambda>p. None), exit_status = (\<lambda>p. 1), signalled = {}, closed = {},
       os_closes = [], trace = [], terminate_error = (\<lambda>p. None), wait_error = (\<lambda>p. None),
       close_error = (\<lambda>h. None) \<rparr>"

definition world_stdin_close_fails :: world where
  "world_stdin_close_fails =
     world_initial\<lparr>close_error := (\<lambda>h. if h = 10 then Some OSError else None)\<rparr>"

text \<open>Spawning: a runtime that rejects the \<open>creationflags\<close> keyword; one that spawns
  at once; an executable that does not exist; a first attempt interrupted from the
  keyboard.\<close>

definition spawn_flag_unsupported :: spawn_fn where
  "spawn_flag_unsupported a n =
     (if arg_creationflags a \<noteq> None then Inl ValueError else Inr popen_piped)"

definition spawn_ok :: spawn_fn where
  "spawn_ok a n = Inr popen_piped"

definition spawn_missing :: spawn_fn where
  "spawn_missing a n = Inl FileNotFoundError"

definition spawn_interrupted :: spawn_fn where
  "spawn_interrupted a n = (if n = 0 then Inl KeyboardInterrupt else Inr popen_piped)"

text \<open>A managed scope whose body raises.\<close>

definition body_raises :: "FallbackProcess \<Rightarrow> py_value call" where
  "body_raises self w = (Inl ValueError, w)"

section \<open>The resolver: lemmas\<close>

lemma try_extensions_total:
  assumes "\<And>c e. which c = Inl e \<Longrightarrow> isinstance_OSError e"
  shows "(\<exists>p. try_extensions which command exts = Inr p \<and> (command \<noteq> [] \<longrightarrow> p \<noteq> []))
       \<or> (\<exists>e. try_extensions which command exts = Inl e \<and> isinstance_OSError e)"
proof (induction exts)
  case Nil
  then show ?case by simp
next
  case (Cons ext exts)
  show ?case
  proof (cases "which (command @ ext)")
    case (Inl e)
    then show ?thesis using assms by simp
  next
    case (Inr found)
    then show ?thesis using Cons by (cases found) auto
  qed
qed

lemma try_extensions_first_hit:
  assumes "i < length exts"
    and "\<And>j. j < i \<Longrightarrow> misses (which (command @ exts ! j))"
    and "resolves (which (command @ exts ! i))"
  shows "try_extensions which command exts = Inr (path_of (which (command @ exts ! i)))"
  using assms
proof (induction exts arbitrary: i)
  case Nil
  then show ?case by simp
next
  case (Cons ext exts)
  show ?case
  proof (cases i)
    case 0
    with Cons.prems(3) show ?thesis
      by (auto simp: resolves_def path_of_def split: sum.splits option.splits)
  next
    case (Suc k)
    from Cons.prems(2) [of 0] Suc have m: "misses (which (command @ ext))" by simp
    have "try_extensions which command exts = Inr (path_of (which (command @ exts ! k)))"
    proof (rule Cons.IH)
      show "k < length exts" using Cons.prems(1) Suc by simp
      show "misses (which (command @ exts ! j))" if "j < k" for j
        using Cons.prems(2) [of "Suc j"] that Suc by simp
      show "resolves (which (command @ exts ! k))" using Cons.prems(3) Suc by simp
    qed
    with m Suc show ?thesis
      by (auto simp: misses_def split: sum.splits)
  qed
qed

lemma try_extensions_no_hit:
  assumes "\<And>ext. ext \<in> set exts \<Longrightarrow> misses (which (command @ ext))"
  shows "try_extensions which command exts = Inr command"
  using assms
proof (induction exts)
  case Nil
  then show ?case by simp
next
  case (Cons ext exts)
  have "misses (which (command @ ext))" using Cons.prems by simp
  moreover have "try_extensions which command exts = Inr command"
    using Cons by simp
  ultimately show ?case
    by (auto simp: misses_def split: sum.splits)
qed


lemma resolver_on_bare_hit:
  "resolves (which command) \<Longrightarrow>
   get_windows_executable_command which command = Inr (path_of (which command))"
  by (auto simp: get_windows_executable_command_def resolve_try_block_def resolves_def path_of_def
      split: sum.splits option.splits)

lemma resolver_on_bare_miss:
  "misses (which command) \<Longrightarrow>
   get_windows_executable_command which command =
     (case try_extensions which command windows_extensions of
        Inl e \<Rightarrow> if isinstance_OSError e then Inr command else Inl e
      | Inr p \<Rightarrow> Inr p)"
  by (auto simp: get_windows_executable_command_def resolve_try_block_def misses_def
      split: sum.splits)

lemma which_denied_raises_OSError: "which_denied c = Inl e \<Longrightarrow> isinstance_OSError e"
  by (auto simp: which_denied_def split: if_splits)

section \<open>The resolver: claims\<close>

text \<open>
  Claim C4, as amended. The claim reads: for every string the resolver returns a
  non-empty string and never raises, whatever the lookup raises. The handler of the
  resolver is \<open>except OSError\<close>, and its last resort is the command name itself. So: for
  every command name, when every exception that the lookup raises is an \<open>OSError\<close> (or
  of a subclass), the resolver does not raise and returns a string, and the string is
  non-empty whenever the command name is.
\<close>

theorem resolver_total_on_oserror:
  assumes "\<And>c e. which c = Inl e \<Longrightarrow> isinstance_OSError e"
  shows "\<exists>p. get_windows_executable_command which command = Inr p \<and> (command \<noteq> [] \<longrightarrow> p \<noteq> [])"
proof (cases "which command")
  case (Inl e)
  then show ?thesis using assms
    by (simp add: get_windows_executable_command_def resolve_try_block_def)
next
  case (Inr found)
  show ?thesis
  proof (cases "truthy_path found")
    case True
    then show ?thesis using Inr
      by (cases found) (auto simp: get_windows_executable_command_def resolve_try_block_def)
  next
    case False
    have "(\<exists>p. try_extensions which command windows_extensions = Inr p \<and> (command \<noteq> [] \<longrightarrow> p \<noteq> []))
       \<or> (\<exists>e. try_extensions which command windows_extensions = Inl e \<and> isinstance_OSError e)"
      by (rule try_extensions_total) (rule assms)
    then show ?thesis using Inr False
      by (auto simp: get_windows_executable_command_def resolve_try_block_def)
  qed
qed


text \<open>The amended claim where the lookup of \<open>npx\<close> raises \<open>PermissionError\<close>.\<close>

theorem resolver_total_on_oserror_witness:
  "which_denied ''npx'' = Inl PermissionError
   \<and> (\<exists>p. get_windows_executable_command which_denied ''npx'' = Inr p \<and> p \<noteq> [])"
  using resolver_total_on_oserror [of which_denied "''npx''", OF which_denied_raises_OSError]
  by (simp add: which_denied_def)

text \<open>
  Claim C4 as stated fails twice: for the empty command name on a search path without a
  match the resolver returns the empty string, and a \<open>ValueError\<close> of the lookup leaves
  the resolver.
\<close>

theorem resolver_total_counterexample:
  "get_windows_executable_command which_nothing [] = Inr []
   \<and> get_windows_executable_command which_value_error ''npx'' = Inl ValueError"
  by (simp add: get_windows_executable_command_def resolve_try_block_def which_nothing_def
      which_value_error_def windows_extensions_def)





text \<open>
  Claim C6. The resolver follows the algorithm of section 4.1: when the bare name
  resolves, its path is returned, whatever the other lookups would do; otherwise the
  suffixes \<open>.cmd\<close>, \<open>.bat\<close>, \<open>.exe\<close>, \<open>.ps1\<close> are appended in this order and the path
  of the first that resolves, after misses only, is returned; when the bare name and all
  four suffixed names miss, the command name is returned as it was given.
\<close>

theorem resolver_algorithm:
  "(resolves (which command) \<longrightarrow>
      get_windows_executable_command which command = Inr (path_of (which command)))
   \<and> (\<forall>i < length windows_extensions.
        misses (which command)
        \<and> (\<forall>j < i. misses (which (command @ windows_extensions ! j)))
        \<and> resolves (which (command @ windows_extensions ! i))
        \<longrightarrow> get_windows_executable_command which command
              = Inr (path_of (which (command @ windows_extensions ! i))))
   \<and> (misses (which command)
        \<and> (\<forall>ext \<in> set windows_extensions. misses (which (command @ ext)))
        \<longrightarrow> get_windows_executable_command which command = Inr command)
   \<and> windows_extensions = [''.cmd'', ''.bat'', ''.exe'', ''.ps1'']"
proof (intro conjI allI impI)
  assume "resolves (which command)"
  then show "get_windows_executable_command which command = Inr (path_of (which command))"
    by (rule resolver_on_bare_hit)
next
  fix i
  assume i: "i < length windows_extensions"
    and h: "misses (which command)
      \<and> (\<forall>j < i. misses (which (command @ windows_extensions ! j)))
      \<and> resolves (which (command @ windows_extensions ! i))"
  from h have "try_extensions which command windows_extensions
      = Inr (path_of (which (command @ windows_extensions ! i)))"
    by (intro try_extensions_first_hit [OF i]) simp_all
  with h show "get_windows_executable_command which command
      = Inr (path_of (which (command @ windows_extensions ! i)))"
    by (simp add: resolver_on_bare_miss)
next
  assume h: "misses (which command)
      \<and> (\<forall>ext \<in> set windows_extensions. misses (which (command @ ext)))"
  then have "try_extensions which command windows_extensions = Inr command"
    by (intro try_extensions_no_hit) simp
  with h show "get_windows_executable_command which command = Inr command"
    by (simp add: resolver_on_bare_miss)
next
  show "windows_extensions = [''.cmd'', ''.bat'', ''.exe'', ''.ps1'']"
    by (simp add: windows_extensions_def)
qed


text \<open>The claim on a search path that holds only \<open>npx.cmd\<close>, asked for \<open>npx.cmd\<close> and
  for \<open>npx\<close>, and on an empty search path.\<close>

theorem resolver_algorithm_witness:
  "resolves (which_npx ''npx.cmd'')
   \<and> get_windows_executable_command which_npx ''npx.cmd'' = Inr ''C:/nodejs/npx.cmd''
   \<and> misses (which_npx ''npx'')
   \<and> get_windows_executable_command which_npx ''npx'' = Inr ''C:/nodejs/npx.cmd''
   \<and> misses (which_nothing ''uvx'')
   \<and> list_all (\<lambda>ext. misses (which_nothing (''uvx'' @ ext))) windows_extensions
   \<and> get_windows_executable_command which_nothing ''uvx'' = Inr ''uvx''"
proof -
  have hit: "resolves (which_npx ''npx.cmd'')"
    by (simp add: which_npx_def resolves_def)
  have bare: "get_windows_executable_command which_npx ''npx.cmd'' = Inr ''C:/nodejs/npx.cmd''"
    using resolver_algorithm [of which_npx "''npx.cmd''", THEN conjunct1] hit
    by (simp add: which_npx_def path_of_def)
  have miss: "misses (which_npx ''npx'')"
    by (simp add: which_npx_def misses_def)
  have suffixed: "get_windows_executable_command which_npx ''npx'' = Inr ''C:/nodejs/npx.cmd''"
    using resolver_algorithm
      [of which_npx "''npx''", THEN conjunct2, THEN conjunct1, rule_format, of 0]
    by (simp add: which_npx_def misses_def resolves_def windows_extensions_def path_of_def)
  have none: "misses (which_nothing c)" for c
    by (simp add: which_nothing_def misses_def)
  have fallback: "get_windows_executable_command which_nothing ''uvx'' = Inr ''uvx''"
    using resolver_algorithm
      [of which_nothing "''uvx''", THEN conjunct2, THEN conjunct2, THEN conjunct1] none
    by simp
  from hit bare miss suffixed none fallback show ?thesis
    by (simp add: list_all_iff)
qed

section \<open>The adapter: lemmas\<close>

text \<open>The scoped exit runs its plan and stops at the first step that raises.\<close>

lemma aexit_runs_plan:
  "aexit self exc_type exc_val exc_tb w = run_fail_fast (teardown_plan self) w"
  by (cases "stdin self"; cases "stdout self"; cases "stdin_raw self"; cases "stdout_raw self";
      cases "stderr self")
     (simp_all add: aexit_def teardown_plan_def present_def if_present_def and_then_def
        split: prod.splits sum.splits)

lemma perform_trace: "perform ev w = (r, w') \<Longrightarrow> trace w' = trace w @ [ev]"
  by (cases ev)
     (auto simp: popen_terminate_def popen_wait_in_thread_def stream_aclose_def file_close_def
        io_close_def record_call_def Let_def split: option.splits if_splits)

lemma perform_closed:
  "perform ev w = (r, w') \<Longrightarrow>
     closed w \<subseteq> closed w' \<and> closed w' \<subseteq> closed w \<union> handles_of [ev]
     \<and> handles_of [ev] \<subseteq> closed w'"
  by (cases ev)
     (auto simp: popen_terminate_def popen_wait_in_thread_def stream_aclose_def file_close_def
        io_close_def record_call_def Let_def handles_of_def
        split: option.splits if_splits)

lemma perform_errors_unchanged:
  "perform ev w = (r, w') \<Longrightarrow>
     terminate_error w' = terminate_error w \<and> wait_error w' = wait_error w
     \<and> close_error w' = close_error w"
  by (cases ev)
     (auto simp: popen_terminate_def popen_wait_in_thread_def stream_aclose_def file_close_def
        io_close_def record_call_def Let_def split: option.splits if_splits)

lemma perform_returncode:
  "perform ev w = (r, w') \<Longrightarrow> returncode w p \<noteq> None \<Longrightarrow> returncode w' p \<noteq> None"
  by (cases ev)
     (auto simp: popen_terminate_def popen_wait_in_thread_def stream_aclose_def file_close_def
        io_close_def record_call_def Let_def split: option.splits if_splits)

lemma perform_wait_sets_returncode:
  "perform (PopenWaitInThread p) w = (Inr r, w') \<Longrightarrow>
     returncode w' (pid p) \<noteq> None \<and> wait_error w' (pid p) = None"
  by (auto simp: popen_wait_in_thread_def record_call_def Let_def split: option.splits if_splits)

lemma perform_releases:
  "perform ev w = (r, w') \<Longrightarrow>
     count_list (os_closes w') h =
       count_list (os_closes w) h + (if h \<in> closed w' \<and> h \<notin> closed w then 1 else 0)"
  by (cases ev)
     (auto simp: popen_terminate_def popen_wait_in_thread_def stream_aclose_def file_close_def
        io_close_def record_call_def Let_def split: option.splits if_splits)

lemma perform_quiet:
  "quiet ev w \<Longrightarrow> \<exists>r. perform ev w = (Inr r, record_call ev w)"
  by (cases ev)
     (auto simp: popen_terminate_def popen_wait_in_thread_def stream_aclose_def file_close_def
        io_close_def record_call_def Let_def split: option.splits if_splits)

lemma quiet_record_call: "quiet ev (record_call ev' w) = quiet ev w"
  by (cases ev) (simp_all add: record_call_def)

lemma run_returns_None: "run_fail_fast evs w = (Inr r, w') \<Longrightarrow> r = PyNone"
  by (induction evs arbitrary: w) (auto split: prod.splits sum.splits)

lemma run_trace_complete: "run_fail_fast evs w = (Inr r, w') \<Longrightarrow> trace w' = trace w @ evs"
proof (induction evs arbitrary: w)
  case Nil
  then show ?case by simp
next
  case (Cons ev evs)
  obtain r1 w1 where p: "perform ev w = (r1, w1)" by (cases "perform ev w")
  with Cons.prems obtain x where "r1 = Inr x" and "run_fail_fast evs w1 = (Inr r, w')"
    by (cases r1) auto
  with Cons.IH [of w1] perform_trace [OF p] show ?case by simp
qed

lemma run_trace_on_error:
  "run_fail_fast evs w = (Inl e, w') \<Longrightarrow>
     \<exists>k < length evs. \<exists>wk.
        perform (evs ! k) wk = (Inl e, w')
        \<and> trace w' = trace w @ take (Suc k) evs
        \<and> closed w' \<subseteq> closed w \<union> handles_of (take (Suc k) evs)"
proof (induction evs arbitrary: w)
  case Nil
  then show ?case by simp
next
  case (Cons ev evs)
  obtain r1 w1 where p: "perform ev w = (r1, w1)" by (cases "perform ev w")
  note t = perform_trace [OF p] and c = perform_closed [OF p]
  show ?case
  proof (cases r1)
    case (Inl e1)
    with p Cons.prems have "w' = w1" and "e1 = e" by simp_all
    with t c p Inl have "perform ((ev # evs) ! 0) w = (Inl e, w')
        \<and> trace w' = trace w @ take (Suc 0) (ev # evs)
        \<and> closed w' \<subseteq> closed w \<union> handles_of (take (Suc 0) (ev # evs))"
      by simp
    then have "0 < length (ev # evs) \<and> (\<exists>wk. perform ((ev # evs) ! 0) wk = (Inl e, w')
        \<and> trace w' = trace w @ take (Suc 0) (ev # evs)
        \<and> closed w' \<subseteq> closed w \<union> handles_of (take (Suc 0) (ev # evs)))"
      by blast
    then show ?thesis by (rule exI)
  next
    case (Inr x)
    with p Cons.prems have "run_fail_fast evs w1 = (Inl e, w')" by simp
    from Cons.IH [OF this] obtain k wk where k: "k < length evs"
      "perform (evs ! k) wk = (Inl e, w')"
      "trace w' = trace w1 @ take (Suc k) evs"
      "closed w' \<subseteq> closed w1 \<union> handles_of (take (Suc k) evs)" by blast
    have h: "handles_of (take (Suc (Suc k)) (ev # evs)) = handles_of [ev] \<union> handles_of (take (Suc k) evs)"
      by (cases "closes ev") (simp_all add: handles_of_def)
    from k t c h have "perform ((ev # evs) ! Suc k) wk = (Inl e, w')
        \<and> trace w' = trace w @ take (Suc (Suc k)) (ev # evs)
        \<and> closed w' \<subseteq> closed w \<union> handles_of (take (Suc (Suc k)) (ev # evs))"
      by auto
    with k(1) have "Suc k < length (ev # evs) \<and> (\<exists>wk. perform ((ev # evs) ! Suc k) wk = (Inl e, w')
        \<and> trace w' = trace w @ take (Suc (Suc k)) (ev # evs)
        \<and> closed w' \<subseteq> closed w \<union> handles_of (take (Suc (Suc k)) (ev # evs)))"
      by auto
    then show ?thesis by (rule exI)
  qed
qed

lemma run_trace_prefix:
  "run_fail_fast evs w = (r, w') \<Longrightarrow> \<exists>n. trace w' = trace w @ take n evs"
proof (cases r)
  case (Inl e)
  assume "run_fail_fast evs w = (r, w')"
  with Inl run_trace_on_error [of evs w e w'] show ?thesis by blast
next
  case (Inr x)
  assume "run_fail_fast evs w = (r, w')"
  with Inr run_trace_complete [of evs w x w'] have "trace w' = trace w @ take (length evs) evs"
    by simp
  then show ?thesis ..
qed

lemma run_quiet:
  "(\<And>ev. ev \<in> set evs \<Longrightarrow> quiet ev w) \<Longrightarrow>
     run_fail_fast evs w = (Inr PyNone, w\<lparr>trace := trace w @ evs\<rparr>)"
proof (induction evs arbitrary: w)
  case Nil
  then show ?case by simp
next
  case (Cons ev evs)
  from Cons.prems have "quiet ev w" by simp
  from perform_quiet [OF this] obtain r where p: "perform ev w = (Inr r, record_call ev w)" ..
  have "run_fail_fast evs (record_call ev w)
      = (Inr PyNone, (record_call ev w)\<lparr>trace := trace (record_call ev w) @ evs\<rparr>)"
    using Cons.prems by (intro Cons.IH) (simp add: quiet_record_call)
  with p show ?case by (simp add: record_call_def)
qed

lemma run_closed_mono: "run_fail_fast evs w = (r, w') \<Longrightarrow> closed w \<subseteq> closed w'"
proof (induction evs arbitrary: w)
  case Nil
  then show ?case by simp
next
  case (Cons ev evs)
  obtain r1 w1 where p: "perform ev w = (r1, w1)" by (cases "perform ev w")
  from perform_closed [OF p] have c: "closed w \<subseteq> closed w1" by simp
  show ?case
  proof (cases r1)
    case (Inl e1)
    with p Cons.prems c show ?thesis by simp
  next
    case (Inr x)
    with p Cons.prems have "run_fail_fast evs w1 = (r, w')" by simp
    from Cons.IH [OF this] c show ?thesis by blast
  qed
qed

lemma run_settles:
  "run_fail_fast evs w = (Inr r, w') \<Longrightarrow>
     handles_of evs \<subseteq> closed w'
     \<and> (\<forall>p. PopenWaitInThread p \<in> set evs \<or> returncode w (pid p) \<noteq> None \<and> wait_error w (pid p) = None
          \<longrightarrow> returncode w' (pid p) \<noteq> None \<and> wait_error w' (pid p) = None)"
proof (induction evs arbitrary: w)
  case Nil
  then show ?case by (simp add: handles_of_def)
next
  case (Cons ev evs)
  obtain r1 w1 where p: "perform ev w = (r1, w1)" by (cases "perform ev w")
  with Cons.prems obtain x where x: "r1 = Inr x" and run: "run_fail_fast evs w1 = (Inr r, w')"
    by (cases r1) auto
  note IH = Cons.IH [OF run]
  have h: "handles_of (ev # evs) = handles_of [ev] \<union> handles_of evs"
    by (cases "closes ev") (simp_all add: handles_of_def)
  from perform_closed [OF p] run_closed_mono [OF run] have "handles_of [ev] \<subseteq> closed w'"
    by blast
  with IH h have first: "handles_of (ev # evs) \<subseteq> closed w'" by simp
  have second: "returncode w' (pid q) \<noteq> None \<and> wait_error w' (pid q) = None"
    if q: "PopenWaitInThread q \<in> set (ev # evs)
        \<or> returncode w (pid q) \<noteq> None \<and> wait_error w (pid q) = None" for q
  proof -
    have "PopenWaitInThread q \<in> set evs
        \<or> returncode w1 (pid q) \<noteq> None \<and> wait_error w1 (pid q) = None"
    proof (cases "ev = PopenWaitInThread q")
      case True
      with p x perform_wait_sets_returncode [of q w x w1] show ?thesis by simp
    next
      case False
      with q perform_returncode [OF p, of "pid q"] perform_errors_unchanged [OF p]
      show ?thesis by auto
    qed
    with IH show ?thesis by blast
  qed
  from first second show ?case by blast
qed

lemma run_releases:
  "run_fail_fast evs w = (r, w') \<Longrightarrow>
     count_list (os_closes w') h =
       count_list (os_closes w) h + (if h \<in> closed w' \<and> h \<notin> closed w then 1 else 0)"
proof (induction evs arbitrary: w)
  case Nil
  then show ?case by simp
next
  case (Cons ev evs)
  obtain r1 w1 where p: "perform ev w = (r1, w1)" by (cases "perform ev w")
  note rel = perform_releases [OF p, of h] and c = perform_closed [OF p]
  show ?case
  proof (cases r1)
    case (Inl e1)
    with p Cons.prems rel show ?thesis by simp
  next
    case (Inr x)
    with p Cons.prems have run: "run_fail_fast evs w1 = (r, w')" by simp
    from Cons.IH [OF run] rel c run_closed_mono [OF run] show ?thesis
      by (auto split: if_splits)
  qed
qed

lemma perform_calm:
  "calm ev w \<Longrightarrow> \<exists>r w'. perform ev w = (Inr r, w')"
  by (cases ev)
     (auto simp: popen_terminate_def popen_wait_in_thread_def stream_aclose_def file_close_def
        io_close_def record_call_def Let_def split: option.splits if_splits)

lemma calm_after_perform: "perform ev' w = (r, w') \<Longrightarrow> calm ev w' = calm ev w"
  using perform_errors_unchanged [of ev' w r w'] by (cases ev) simp_all

lemma run_calm:
  "(\<And>ev. ev \<in> set evs \<Longrightarrow> calm ev w) \<Longrightarrow> \<exists>w'. run_fail_fast evs w = (Inr PyNone, w')"
proof (induction evs arbitrary: w)
  case Nil
  then show ?case by simp
next
  case (Cons ev evs)
  from Cons.prems have "calm ev w" by simp
  from perform_calm [OF this] obtain r w1 where p: "perform ev w = (Inr r, w1)" by blast
  have "\<exists>w'. run_fail_fast evs w1 = (Inr PyNone, w')"
    using Cons.prems calm_after_perform [OF p] by (intro Cons.IH) simp
  with p show ?case by simp
qed

text \<open>The teardown evaluated on the child with three endpoints, where releasing its
  standard input fails.\<close>

lemma aexit_full_stdin_close_fails:
  "aexit adapter_full None None None world_stdin_close_fails =
     (Inl OSError, snd (aexit adapter_full None None None world_stdin_close_fails))"
  by (simp add: aexit_def and_then_def if_present_def adapter_full_def popen_full_def
      FallbackProcess_init_def world_initial_def world_stdin_close_fails_def popen_terminate_def
      popen_wait_in_thread_def stream_aclose_def file_close_def io_close_def record_call_def
      Let_def)

lemma handles_of_member:
  "ev \<in> set evs \<Longrightarrow> closes ev = Some h \<Longrightarrow> h \<in> handles_of evs"
  by (induction evs) (auto simp: handles_of_def split: option.splits)

lemma plan_quiet_after_success:
  assumes "run_fail_fast (teardown_plan self) w = (Inr r, w1)" and "ev \<in> set (teardown_plan self)"
  shows "quiet ev w1"
proof -
  note s = run_settles [OF assms(1)]
  have wait: "PopenWaitInThread (popen self) \<in> set (teardown_plan self)"
    by (simp add: teardown_plan_def)
  with s have rc: "returncode w1 (pid (popen self)) \<noteq> None \<and> wait_error w1 (pid (popen self)) = None"
    by blast
  show ?thesis
  proof (cases ev)
    case (PopenTerminate p)
    with assms(2) have "p = popen self"
      by (auto simp: teardown_plan_def present_def split: option.splits)
    with rc PopenTerminate show ?thesis by simp
  next
    case (PopenWaitInThread p)
    with assms(2) have "p = popen self"
      by (auto simp: teardown_plan_def present_def split: option.splits)
    with rc PopenWaitInThread show ?thesis by simp
  next
    case (StreamAclose st)
    with assms(2) have "file_of st \<in> handles_of (teardown_plan self)"
      by (intro handles_of_member [of ev]) simp_all
    with s StreamAclose show ?thesis by auto
  next
    case (FileClose h)
    with assms(2) have "h \<in> handles_of (teardown_plan self)"
      by (intro handles_of_member [of ev]) simp_all
    with s FileClose show ?thesis by auto
  qed
qed

lemma popen_terminate_returns_None:
  "popen_terminate p w = (Inr r, w') \<Longrightarrow> r = PyNone"
  by (auto simp: popen_terminate_def Let_def split: option.splits)

lemma aexit_returns_None: "aexit self t v tb w = (Inr r, w') \<Longrightarrow> r = PyNone"
  by (simp add: aexit_runs_plan run_returns_None)

section \<open>The adapter: claims\<close>

text \<open>
  Claim C1. On scoped exit the steps are performed in the order of the plan: terminate,
  await the exit in a worker thread, close the write stream, the read stream, the raw
  write handle, the raw read handle and the raw error handle, each of the last five only
  if present. Whatever happens, the calls made are an initial part of the plan, in its
  order; when the exit returns, and so whenever the environment holds no failure for any
  step, they are the whole plan.
\<close>

theorem teardown_order:
  assumes "aexit self exc_type exc_val exc_tb w = (r, w')"
  shows "(\<exists>n. trace w' = trace w @ take n (teardown_plan self))
    \<and> ((\<exists>x. r = Inr x) \<longrightarrow> trace w' = trace w @ teardown_plan self)
    \<and> ((\<forall>ev \<in> set (teardown_plan self). calm ev w) \<longrightarrow>
          r = Inr PyNone \<and> trace w' = trace w @ teardown_plan self)"
proof -
  from assms have run: "run_fail_fast (teardown_plan self) w = (r, w')"
    by (simp add: aexit_runs_plan)
  have a: "\<exists>n. trace w' = trace w @ take n (teardown_plan self)"
    using run by (rule run_trace_prefix)
  have b: "trace w' = trace w @ teardown_plan self" if "\<exists>x. r = Inr x"
    using that run run_trace_complete by blast
  have c: "r = Inr PyNone" if "\<forall>ev \<in> set (teardown_plan self). calm ev w"
    using that run run_calm [of "teardown_plan self" w] by auto
  from a b c show ?thesis by blast
qed

text \<open>The claim on the child with three endpoints: the seven calls, in order.\<close>

theorem teardown_order_witness:
  "list_all (\<lambda>ev. calm ev world_initial) (teardown_plan adapter_full)
   \<and> fst (aexit adapter_full None None None world_initial) = Inr PyNone
   \<and> trace (snd (aexit adapter_full None None None world_initial)) =
       [PopenTerminate popen_full, PopenWaitInThread popen_full,
        StreamAclose (FileWriteStream 10), StreamAclose (FileReadStream 11),
        FileClose 10, FileClose 11, FileClose 12]"
proof -
  let ?exit = "aexit adapter_full None None None world_initial"
  have plan: "teardown_plan adapter_full =
       [PopenTerminate popen_full, PopenWaitInThread popen_full,
        StreamAclose (FileWriteStream 10), StreamAclose (FileReadStream 11),
        FileClose 10, FileClose 11, FileClose 12]"
    by (simp add: teardown_plan_def present_def adapter_full_def popen_full_def
        FallbackProcess_init_def)
  have calm: "\<forall>ev \<in> set (teardown_plan adapter_full). calm ev world_initial"
    by (simp add: plan world_initial_def)
  have run: "?exit = (fst ?exit, snd ?exit)" by simp
  note t = teardown_order [OF run]
  from t calm have r: "fst ?exit = Inr PyNone"
    and tr: "trace (snd ?exit) = trace world_initial @ teardown_plan adapter_full"
    by blast+
  from tr have "trace (snd ?exit) = teardown_plan adapter_full"
    by (simp add: world_initial_def)
  with calm r show ?thesis by (simp add: list_all_iff plan)
qed

text \<open>
  Claim C2, as amended. The claim reads: each closing step is attempted even if an
  earlier one raised. No statement of \<open>__aexit__\<close> is under a handler, so the teardown is
  fail-fast: it runs the plan and stops at the first step that raises. When a step
  raises, its exception leaves \<open>__aexit__\<close>, the calls made are the plan up to and
  including that step, and no file object beyond those of the steps made is closed.
\<close>

theorem teardown_fail_fast:
  "aexit self exc_type exc_val exc_tb w = run_fail_fast (teardown_plan self) w
   \<and> (\<forall>e w'. aexit self exc_type exc_val exc_tb w = (Inl e, w') \<longrightarrow>
         (\<exists>k < length (teardown_plan self). \<exists>wk.
            perform (teardown_plan self ! k) wk = (Inl e, w')
            \<and> trace w' = trace w @ take (Suc k) (teardown_plan self)
            \<and> closed w' \<subseteq> closed w \<union> handles_of (take (Suc k) (teardown_plan self))))"
proof (intro conjI allI impI)
  show "aexit self exc_type exc_val exc_tb w = run_fail_fast (teardown_plan self) w"
    by (rule aexit_runs_plan)
next
  fix e w'
  assume "aexit self exc_type exc_val exc_tb w = (Inl e, w')"
  then have "run_fail_fast (teardown_plan self) w = (Inl e, w')"
    by (simp add: aexit_runs_plan)
  then show "\<exists>k < length (teardown_plan self). \<exists>wk.
      perform (teardown_plan self ! k) wk = (Inl e, w')
      \<and> trace w' = trace w @ take (Suc k) (teardown_plan self)
      \<and> closed w' \<subseteq> closed w \<union> handles_of (take (Suc k) (teardown_plan self))"
    by (rule run_trace_on_error)
qed

text \<open>The amended claim where releasing the child's standard input fails.\<close>

theorem teardown_fail_fast_witness:
  "fst (aexit adapter_full None None None world_stdin_close_fails) = Inl OSError
   \<and> (\<exists>k < length (teardown_plan adapter_full). \<exists>wk.
        perform (teardown_plan adapter_full ! k) wk
          = (Inl OSError, snd (aexit adapter_full None None None world_stdin_close_fails))
        \<and> trace (snd (aexit adapter_full None None None world_stdin_close_fails))
          = trace world_stdin_close_fails @ take (Suc k) (teardown_plan adapter_full)
        \<and> closed (snd (aexit adapter_full None None None world_stdin_close_fails))
          \<subseteq> closed world_stdin_close_fails
            \<union> handles_of (take (Suc k) (teardown_plan adapter_full)))"
proof -
  note raised = aexit_full_stdin_close_fails
  note t = teardown_fail_fast [of adapter_full None None None world_stdin_close_fails,
      THEN conjunct2, rule_format, OF raised]
  from raised have "fst (aexit adapter_full None None None world_stdin_close_fails) = Inl OSError"
    by (metis fst_conv)
  with t show ?thesis by (rule conjI [rotated])
qed

text \<open>
  Claim C2 as stated fails there: closing the write stream raises, and of the five closing
  steps the other four are never attempted; handles 11 and 12 stay open.
\<close>

theorem teardown_best_effort_counterexample:
  "fst (aexit adapter_full None None None world_stdin_close_fails) = Inl OSError
   \<and> trace (snd (aexit adapter_full None None None world_stdin_close_fails))
       = [PopenTerminate popen_full, PopenWaitInThread popen_full, StreamAclose (FileWriteStream 10)]
   \<and> closing_steps adapter_full
       = [StreamAclose (FileWriteStream 10), StreamAclose (FileReadStream 11),
          FileClose 10, FileClose 11, FileClose 12]
   \<and> closed (snd (aexit adapter_full None None None world_stdin_close_fails)) = {10}"
  by (simp add: aexit_def and_then_def if_present_def adapter_full_def popen_full_def
      FallbackProcess_init_def world_initial_def world_stdin_close_fails_def popen_terminate_def
      popen_wait_in_thread_def stream_aclose_def file_close_def io_close_def record_call_def
      Let_def closing_steps_def teardown_plan_def present_def)

text \<open>
  Claim C3. Two invocations of the teardown on one adapter: the first returns whenever
  the environment holds no failure for its steps; after a first that returned, the
  second returns \<open>None\<close> and releases no handle, closes no file object and changes
  nothing of the child; and over both invocations, however they end, every handle is
  released to the operating system at most once. Within one teardown the file object
  under a stream is asked to close twice (by the \<open>aclose\<close> of the stream, then by the
  \<open>close\<close> of the raw handle): the second request finds it closed and does nothing. This
  rests on the behaviour of the library stated above: a closed file object ignores
  \<open>close\<close>, and \<open>terminate\<close> does nothing after the child has been waited for.
\<close>

theorem teardown_twice:
  assumes first: "aexit self t1 v1 tb1 w = (r1, w1)"
    and second: "aexit self t2 v2 tb2 w1 = (r2, w2)"
  shows "((\<forall>ev \<in> set (teardown_plan self). calm ev w) \<longrightarrow> r1 = Inr PyNone)
    \<and> ((\<exists>x. r1 = Inr x) \<longrightarrow>
          r2 = Inr PyNone \<and> os_closes w2 = os_closes w1 \<and> closed w2 = closed w1
          \<and> returncode w2 = returncode w1 \<and> signalled w2 = signalled w1)
    \<and> (\<forall>h. count_list (os_closes w2) h \<le> count_list (os_closes w) h + 1)"
proof -
  from first have run1: "run_fail_fast (teardown_plan self) w = (r1, w1)"
    by (simp add: aexit_runs_plan)
  from second have run2: "run_fail_fast (teardown_plan self) w1 = (r2, w2)"
    by (simp add: aexit_runs_plan)
  have a: "r1 = Inr PyNone" if "\<forall>ev \<in> set (teardown_plan self). calm ev w"
    using that run1 run_calm [of "teardown_plan self" w] by auto
  have b: "r2 = Inr PyNone \<and> os_closes w2 = os_closes w1 \<and> closed w2 = closed w1
          \<and> returncode w2 = returncode w1 \<and> signalled w2 = signalled w1"
    if "\<exists>x. r1 = Inr x"
  proof -
    from that run1 obtain x where "run_fail_fast (teardown_plan self) w = (Inr x, w1)" by blast
    then have "\<And>ev. ev \<in> set (teardown_plan self) \<Longrightarrow> quiet ev w1"
      by (rule plan_quiet_after_success)
    from run_quiet [OF this] run2
    have "r2 = Inr PyNone" and "w2 = w1\<lparr>trace := trace w1 @ teardown_plan self\<rparr>" by simp_all
    then show ?thesis by simp
  qed
  have c: "count_list (os_closes w2) h \<le> count_list (os_closes w) h + 1" for h
    using run_releases [OF run1, of h] run_releases [OF run2, of h] run_closed_mono [OF run1]
    by (auto split: if_splits)
  from a b c show ?thesis by blast
qed

text \<open>The claim on the child with three endpoints: both invocations return \<open>None\<close>, and
  the three handles were released once each.\<close>

theorem teardown_twice_witness:
  "list_all (\<lambda>ev. calm ev world_initial) (teardown_plan adapter_full)
   \<and> fst (aexit adapter_full None None None world_initial) = Inr PyNone
   \<and> fst (aexit adapter_full None None None (snd (aexit adapter_full None None None world_initial)))
       = Inr PyNone
   \<and> os_closes (snd (aexit adapter_full None None None
        (snd (aexit adapter_full None None None world_initial)))) = [10, 11, 12]"
proof -
  let ?first = "aexit adapter_full None None None world_initial"
  let ?second = "aexit adapter_full None None None (snd ?first)"
  have calm: "\<forall>ev \<in> set (teardown_plan adapter_full). calm ev world_initial"
    by (simp add: teardown_plan_def present_def adapter_full_def popen_full_def
        FallbackProcess_init_def world_initial_def)
  have run1: "?first = (fst ?first, snd ?first)" by simp
  have run2: "?second = (fst ?second, snd ?second)" by simp
  note t = teardown_twice [OF run1 run2]
  from t calm have r1: "fst ?first = Inr PyNone" by blast
  with t have r2: "fst ?second = Inr PyNone"
    and same: "os_closes (snd ?second) = os_closes (snd ?first)" by blast+
  have "os_closes (snd ?first) = [10, 11, 12]"
    by (simp add: aexit_def and_then_def if_present_def adapter_full_def popen_full_def
      FallbackProcess_init_def world_initial_def popen_terminate_def popen_wait_in_thread_def
      stream_aclose_def file_close_def io_close_def record_call_def Let_def)
  with same have "os_closes (snd ?second) = [10, 11, 12]" by simp
  with calm r1 r2 show ?thesis by (simp add: list_all_iff)
qed

text \<open>
  Claim C8. In every state of the adapter and of the world, \<open>kill\<close> does what
  \<open>terminate\<close> does and returns what it returns: there is no separate forceful path.
\<close>

theorem kill_is_terminate: "kill self w = terminate self w"
proof (cases "popen_terminate (popen self) w")
  case (Pair r w')
  show ?thesis
  proof (cases r)
    case (Inl e)
    with Pair show ?thesis by (simp add: kill_def terminate_def and_then_def)
  next
    case (Inr x)
    with Pair popen_terminate_returns_None [of "popen self" w x w'] show ?thesis
      by (simp add: kill_def terminate_def and_then_def)
  qed
qed

text \<open>The claim on a running child: one termination request, made through
  \<open>terminate\<close>.\<close>

theorem kill_is_terminate_witness:
  "kill adapter_full world_initial = terminate adapter_full world_initial
   \<and> fst (kill adapter_full world_initial) = Inr PyNone
   \<and> signalled (snd (kill adapter_full world_initial)) = {4242}
   \<and> trace (snd (kill adapter_full world_initial)) = [PopenTerminate popen_full]"
  using kill_is_terminate [of adapter_full world_initial]
  by (simp add: terminate_def popen_terminate_def record_call_def adapter_full_def popen_full_def
      FallbackProcess_init_def world_initial_def Let_def)

text \<open>
  Claim C9. At construction the write stream exists exactly when the raw standard input
  does, and the read stream exactly when the raw standard output does; each stream is
  built over that very endpoint; an absent endpoint gives an absent stream (the
  construction has no failing branch); the raw standard error is kept as it is,
  unwrapped.
\<close>

theorem init_wraps_present_endpoints:
  "(stdin (FallbackProcess_init p) = None \<longleftrightarrow> p_stdin p = None)
   \<and> (stdout (FallbackProcess_init p) = None \<longleftrightarrow> p_stdout p = None)
   \<and> stdin (FallbackProcess_init p) = map_option FileWriteStream (p_stdin p)
   \<and> stdout (FallbackProcess_init p) = map_option FileReadStream (p_stdout p)
   \<and> stdin_raw (FallbackProcess_init p) = p_stdin p
   \<and> stdout_raw (FallbackProcess_init p) = p_stdout p
   \<and> stderr (FallbackProcess_init p) = p_stderr p
   \<and> popen (FallbackProcess_init p) = p"
  by (cases "p_stdin p"; cases "p_stdout p") (simp_all add: FallbackProcess_init_def)

text \<open>The claim on a child whose standard input was redirected elsewhere.\<close>

theorem init_wraps_present_endpoints_witness:
  "stdin (FallbackProcess_init popen_no_stdin) = None
   \<and> stdout (FallbackProcess_init popen_no_stdin) = Some (FileReadStream 31)
   \<and> stderr (FallbackProcess_init popen_no_stdin) = Some 32"
  using init_wraps_present_endpoints [of popen_no_stdin]
  by (simp add: popen_no_stdin_def)

text \<open>
  Claim C10. \<open>__aexit__\<close> does not look at its three arguments: with any exception
  information it does what it does on a normal exit. When it returns, it returns
  \<open>None\<close>, which is false; it returns whenever the environment holds no failure for its
  steps. So an exception raised in the managed scope is never suppressed: the
  \<open>async with\<close> statement ends with an exception, and with that very exception when the
  teardown returns.
\<close>

theorem aexit_ignores_exception_info:
  "aexit self exc_type exc_val exc_tb w = aexit self None None None w
   \<and> (\<forall>r w'. aexit self exc_type exc_val exc_tb w = (Inr r, w') \<longrightarrow> r = PyNone \<and> \<not> truthy r)
   \<and> ((\<forall>ev \<in> set (teardown_plan self). calm ev w) \<longrightarrow>
         fst (aexit self exc_type exc_val exc_tb w) = Inr PyNone)
   \<and> (\<forall>body e w1. body self w = (Inl e, w1) \<longrightarrow>
         (\<exists>e' w2. async_with self body w = (Inl e', w2))
         \<and> (\<forall>r w2. aexit self (Some e) (Some e) (Some 0) w1 = (Inr r, w2) \<longrightarrow>
               async_with self body w = (Inl e, w2)))"
proof (intro conjI allI impI)
  show "aexit self exc_type exc_val exc_tb w = aexit self None None None w"
    by (simp add: aexit_runs_plan)
next
  fix r w' assume "aexit self exc_type exc_val exc_tb w = (Inr r, w')"
  then show "r = PyNone" by (rule aexit_returns_None)
next
  fix r w' assume "aexit self exc_type exc_val exc_tb w = (Inr r, w')"
  then have "r = PyNone" by (rule aexit_returns_None)
  then show "\<not> truthy r" by simp
next
  assume "\<forall>ev \<in> set (teardown_plan self). calm ev w"
  then show "fst (aexit self exc_type exc_val exc_tb w) = Inr PyNone"
    using run_calm [of "teardown_plan self" w] by (auto simp: aexit_runs_plan)
next
  fix body :: "FallbackProcess \<Rightarrow> py_value call" and e :: py_exception and w1 :: world
  assume b: "body self w = (Inl e, w1)"
  obtain r2 w2 where x: "aexit self (Some e) (Some e) (Some 0) w1 = (r2, w2)"
    by (cases "aexit self (Some e) (Some e) (Some 0) w1")
  show "\<exists>e' w2. async_with self body w = (Inl e', w2)"
  proof (cases r2)
    case (Inl e')
    with b x show ?thesis by (simp add: async_with_def aenter_def)
  next
    case (Inr r)
    with x aexit_returns_None [of self "Some e" "Some e" "Some 0" w1 r w2] have "r = PyNone"
      by simp
    with Inr b x show ?thesis by (simp add: async_with_def aenter_def)
  qed
next
  fix body :: "FallbackProcess \<Rightarrow> py_value call" and e :: py_exception
    and w1 w2 :: world and r :: py_value
  assume b: "body self w = (Inl e, w1)"
    and x: "aexit self (Some e) (Some e) (Some 0) w1 = (Inr r, w2)"
  from x have "r = PyNone" by (rule aexit_returns_None)
  with b x show "async_with self body w = (Inl e, w2)"
    by (simp add: async_with_def aenter_def)
qed

text \<open>The claim for a scope whose body raises \<open>ValueError\<close>, on the child with three
  endpoints.\<close>

theorem aexit_ignores_exception_info_witness:
  "aexit adapter_full (Some ValueError) (Some ValueError) (Some 0) world_initial
     = aexit adapter_full None None None world_initial
   \<and> fst (aexit adapter_full (Some ValueError) (Some ValueError) (Some 0) world_initial) = Inr PyNone
   \<and> fst (async_with adapter_full body_raises world_initial) = Inl ValueError"
proof -
  note t = aexit_ignores_exception_info
    [of adapter_full "Some ValueError" "Some ValueError" "Some 0" world_initial]
  have calm: "\<forall>ev \<in> set (teardown_plan adapter_full). calm ev world_initial"
    by (simp add: teardown_plan_def present_def adapter_full_def FallbackProcess_init_def
        popen_full_def world_initial_def)
  have body: "body_raises adapter_full world_initial = (Inl ValueError, world_initial)"
    by (simp add: body_raises_def)
  from t calm have r: "fst (aexit adapter_full (Some ValueError) (Some ValueError) (Some 0) world_initial) = Inr PyNone"
    by blast
  then have "aexit adapter_full (Some ValueError) (Some ValueError) (Some 0) world_initial
      = (Inr PyNone, snd (aexit adapter_full (Some ValueError) (Some ValueError) (Some 0) world_initial))"
    by (metis prod.collapse)
  with t body have "async_with adapter_full body_raises world_initial
      = (Inl ValueError, snd (aexit adapter_full (Some ValueError) (Some ValueError) (Some 0) world_initial))"
    by blast
  with t r show ?thesis by simp
qed

section \<open>The launcher: claims\<close>

text \<open>
  Claim C7, as amended. The claim reads: when the first attempt raises any exception, a
  second attempt follows. The handler is \<open>except Exception\<close>, so: the launcher makes at
  most two spawn attempts; the first passes the creation flags (\<open>CREATE_NO_WINDOW\<close> where
  the platform defines it); when it succeeds its process object is wrapped in a new
  \<open>FallbackProcess\<close>; when it raises an instance of \<open>Exception\<close>, one more attempt is
  made with the same arguments and no creation flags, whose process object is wrapped
  and returned when it succeeds and whose exception propagates when it raises; when the
  first attempt raises an exception that is not an instance of \<open>Exception\<close>
  (\<open>KeyboardInterrupt\<close>, \<open>SystemExit\<close>), that exception propagates and no second attempt
  is made.
\<close>

theorem launcher_two_tiers:
  assumes "create_windows_process os_spawn create_no_window command args env errlog cwd calls
             = (r, calls')"
  shows "length calls' \<le> length calls + 2
    \<and> (\<forall>p. os_spawn (first_attempt create_no_window command args env errlog cwd) (length calls) = Inr p
          \<longrightarrow> r = Inr (FallbackProcess_init p)
              \<and> calls' = calls @ [first_attempt create_no_window command args env errlog cwd])
    \<and> (\<forall>e. os_spawn (first_attempt create_no_window command args env errlog cwd) (length calls) = Inl e
            \<and> isinstance_Exception e
          \<longrightarrow> calls' = calls @ [first_attempt create_no_window command args env errlog cwd,
                                 second_attempt command args env errlog cwd]
              \<and> (\<forall>p. os_spawn (second_attempt command args env errlog cwd) (Suc (length calls)) = Inr p
                    \<longrightarrow> r = Inr (FallbackProcess_init p))
              \<and> (\<forall>e2. os_spawn (second_attempt command args env errlog cwd) (Suc (length calls)) = Inl e2
                    \<longrightarrow> r = Inl e2))
    \<and> (\<forall>e. os_spawn (first_attempt create_no_window command args env errlog cwd) (length calls) = Inl e
            \<and> \<not> isinstance_Exception e
          \<longrightarrow> r = Inl e
              \<and> calls' = calls @ [first_attempt create_no_window command args env errlog cwd])
    \<and> second_attempt command args env errlog cwd
        = (first_attempt create_no_window command args env errlog cwd)\<lparr>arg_creationflags := None\<rparr>
    \<and> arg_creationflags (first_attempt create_no_window command args env errlog cwd)
        = Some (case create_no_window of Some flag \<Rightarrow> flag | None \<Rightarrow> 0)"
proof -
  let ?a1 = "first_attempt create_no_window command args env errlog cwd"
  let ?a2 = "second_attempt command args env errlog cwd"
  let ?n = "length calls"
  have same: "?a2 = ?a1\<lparr>arg_creationflags := None\<rparr>"
    by (simp add: first_attempt_def second_attempt_def)
  have flag: "arg_creationflags ?a1 = Some (case create_no_window of Some flag \<Rightarrow> flag | None \<Rightarrow> 0)"
    by (simp add: first_attempt_def getattr_CREATE_NO_WINDOW_def)
  have main: "length calls' \<le> ?n + 2
    \<and> (\<forall>p. os_spawn ?a1 ?n = Inr p \<longrightarrow> r = Inr (FallbackProcess_init p) \<and> calls' = calls @ [?a1])
    \<and> (\<forall>e. os_spawn ?a1 ?n = Inl e \<and> isinstance_Exception e
          \<longrightarrow> calls' = calls @ [?a1, ?a2]
              \<and> (\<forall>p. os_spawn ?a2 (Suc ?n) = Inr p \<longrightarrow> r = Inr (FallbackProcess_init p))
              \<and> (\<forall>e2. os_spawn ?a2 (Suc ?n) = Inl e2 \<longrightarrow> r = Inl e2))
    \<and> (\<forall>e. os_spawn ?a1 ?n = Inl e \<and> \<not> isinstance_Exception e
          \<longrightarrow> r = Inl e \<and> calls' = calls @ [?a1])"
  proof (cases "os_spawn ?a1 ?n")
    case (Inr p)
    with assms have "r = Inr (FallbackProcess_init p)" and "calls' = calls @ [?a1]"
      by (simp_all add: create_windows_process_def Popen_def)
    with Inr show ?thesis by simp
  next
    case first: (Inl e)
    show ?thesis
    proof (cases "isinstance_Exception e")
      case False
      with first assms have "r = Inl e" and "calls' = calls @ [?a1]"
        by (simp_all add: create_windows_process_def Popen_def)
      with first False show ?thesis by simp
    next
      case True
      show ?thesis
      proof (cases "os_spawn ?a2 (Suc ?n)")
        case (Inl e2)
        with first True assms have "r = Inl e2" and "calls' = calls @ [?a1, ?a2]"
          by (simp_all add: create_windows_process_def Popen_def)
        with first True Inl show ?thesis by simp
      next
        case (Inr p)
        with first True assms have "r = Inr (FallbackProcess_init p)" and "calls' = calls @ [?a1, ?a2]"
          by (simp_all add: create_windows_process_def Popen_def)
        with first True Inr show ?thesis by simp
      qed
    qed
  qed
  note m1 = main [THEN conjunct1]
    and m2 = main [THEN conjunct2, THEN conjunct1]
    and m3 = main [THEN conjunct2, THEN conjunct2, THEN conjunct1]
    and m4 = main [THEN conjunct2, THEN conjunct2, THEN conjunct2]
  show ?thesis by (intro conjI m1 m2 m3 m4 same flag)
qed

text \<open>The amended claim on a runtime that rejects the creation flags (the second attempt
  succeeds), for an executable that does not exist (both attempts raise), on a runtime
  that spawns at once, and for a first attempt interrupted from the keyboard.\<close>

theorem launcher_two_tiers_witness:
  "fst (create_windows_process spawn_flag_unsupported (Some 134217728) ''npx'' [''-y'', ''server'']
        None None None []) = Inr (FallbackProcess_init popen_piped)
   \<and> snd (create_windows_process spawn_flag_unsupported (Some 134217728) ''npx'' [''-y'', ''server'']
        None None None [])
     = [first_attempt (Some 134217728) ''npx'' [''-y'', ''server''] None None None,
        second_attempt ''npx'' [''-y'', ''server''] None None None]
   \<and> fst (create_windows_process spawn_missing (Some 134217728) ''npx'' [''-y'', ''server'']
        None None None []) = Inl FileNotFoundError
   \<and> length (snd (create_windows_process spawn_missing (Some 134217728) ''npx'' [''-y'', ''server'']
        None None None [])) = 2
   \<and> create_windows_process spawn_ok (Some 134217728) ''npx'' [''-y'', ''server''] None None None []
     = (Inr (FallbackProcess_init popen_piped),
        [first_attempt (Some 134217728) ''npx'' [''-y'', ''server''] None None None])
   \<and> create_windows_process spawn_interrupted (Some 134217728) ''npx'' [''-y'', ''server'']
        None None None []
     = (Inl KeyboardInterrupt,
        [first_attempt (Some 134217728) ''npx'' [''-y'', ''server''] None None None])"
proof -
  let ?a1 = "first_attempt (Some 134217728) ''npx'' [''-y'', ''server''] None None None"
  let ?a2 = "second_attempt ''npx'' [''-y'', ''server''] None None None"
  let ?launch = "\<lambda>spawn. create_windows_process spawn (Some 134217728) ''npx''
      [''-y'', ''server''] None None None []"
  have run: "?launch spawn = (fst (?launch spawn), snd (?launch spawn))" for spawn by simp
  note t = launcher_two_tiers [OF run]
  note ok = t [THEN conjunct2, THEN conjunct1, rule_format]
    and retry = t [THEN conjunct2, THEN conjunct2, THEN conjunct1, rule_format]
    and pass = t [THEN conjunct2, THEN conjunct2, THEN conjunct2, THEN conjunct1, rule_format]

  have "spawn_flag_unsupported ?a1 (length ([] :: popen_args list)) = Inl ValueError
      \<and> isinstance_Exception ValueError"
    by (simp add: spawn_flag_unsupported_def first_attempt_def)
  note unsupported = retry [of spawn_flag_unsupported, OF this]
  have "spawn_flag_unsupported ?a2 (Suc (length ([] :: popen_args list))) = Inr popen_piped"
    by (simp add: spawn_flag_unsupported_def second_attempt_def)
  with unsupported have u1: "fst (?launch spawn_flag_unsupported) = Inr (FallbackProcess_init popen_piped)"
    by blast
  from unsupported have u2: "snd (?launch spawn_flag_unsupported) = [?a1, ?a2]" by simp

  have "spawn_missing ?a1 (length ([] :: popen_args list)) = Inl FileNotFoundError
      \<and> isinstance_Exception FileNotFoundError"
    by (simp add: spawn_missing_def)
  note missing = retry [of spawn_missing, OF this]
  have "spawn_missing ?a2 (Suc (length ([] :: popen_args list))) = Inl FileNotFoundError"
    by (simp add: spawn_missing_def)
  with missing have m1: "fst (?launch spawn_missing) = Inl FileNotFoundError" by blast
  from missing have m2: "length (snd (?launch spawn_missing)) = 2" by simp

  have "spawn_ok ?a1 (length ([] :: popen_args list)) = Inr popen_piped"
    by (simp add: spawn_ok_def)
  from ok [of spawn_ok, OF this]
  have o: "?launch spawn_ok = (Inr (FallbackProcess_init popen_piped), [?a1])"
    by (simp add: prod_eq_iff)

  have "spawn_interrupted ?a1 (length ([] :: popen_args list)) = Inl KeyboardInterrupt
      \<and> \<not> isinstance_Exception KeyboardInterrupt"
    by (simp add: spawn_interrupted_def)
  from pass [of spawn_interrupted, OF this]
  have i: "?launch spawn_interrupted = (Inl KeyboardInterrupt, [?a1])"
    by (simp add: prod_eq_iff)

  from u1 u2 m1 m2 o i show ?thesis by (intro conjI)
qed

text \<open>
  Claim C7 as stated fails when the first attempt is interrupted from the keyboard: the
  second attempt would have succeeded, and is not made.
\<close>

theorem launcher_any_exception_counterexample:
  "spawn_interrupted (first_attempt (Some 134217728) ''npx'' [] None None None) 0
     = Inl KeyboardInterrupt
   \<and> spawn_interrupted (second_attempt ''npx'' [] None None None) 1 = Inr popen_piped
   \<and> create_windows_process spawn_interrupted (Some 134217728) ''npx'' [] None None None []
     = (Inl KeyboardInterrupt, [first_attempt (Some 134217728) ''npx'' [] None None None])"
  by (simp add: create_windows_process_def Popen_def spawn_interrupted_def)

end
